theory Spec2Isabelle
  imports Main
begin

section \<open>Values of the request and of the responses\<close>

text \<open>
  The handlers of \<^verbatim>\<open>src/server/controllers/index.js\<close> read fields of \<^verbatim>\<open>req.body\<close>
  and \<^verbatim>\<open>req.query\<close>, test them with \<^verbatim>\<open>!\<close>, and put them into template literals.
  A field is a value that a body parser can produce: \<^verbatim>\<open>undefined\<close> (the field is
  absent), \<^verbatim>\<open>null\<close>, a boolean, a number, a string, an array or an object. The numbers
  are those of the data model (\<^verbatim>\<open>beds\<close>, \<^verbatim>\<open>age\<close>): integers, and as JavaScript numbers
  the integers that a double represents (\<open>isNumber\<close> below).
\<close>

datatype jsval =
    JUndefined | JNull | JBool bool | JNum int | JStr string
  | JArr "jsval list" | JObj "(string \<times> jsval) list"

text \<open>What a handler or a store call throws.\<close>

datatype exn = StoreError | TypeError

text \<open>The operator \<^verbatim>\<open>!\<close>: the falsy values are \<^verbatim>\<open>undefined\<close>, \<^verbatim>\<open>null\<close>,
  \<^verbatim>\<open>false\<close>, \<^verbatim>\<open>0\<close> and the empty string. Every array and every object is truthy,
  the empty array too.\<close>

fun falsy :: "jsval \<Rightarrow> bool" where
  "falsy JUndefined = True"
| "falsy JNull = True"
| "falsy (JBool b) = (\<not> b)"
| "falsy (JNum n) = (n = 0)"
| "falsy (JStr s) = (s = [])"
| "falsy (JArr xs) = False"
| "falsy (JObj kvs) = False"

fun primitive :: "jsval \<Rightarrow> bool" where
  "primitive (JArr xs) = False"
| "primitive (JObj kvs) = False"
| "primitive v = True"

subsection \<open>Numbers\<close>

text \<open>
  A JavaScript number is a double. Up to \<open>2 ^ 53\<close> in magnitude every integer is one;
  from there on the doubles are \<open>spacing\<close> apart, and the sum of two numbers is the
  double nearest to the exact sum, the one with the even significand when two are equally
  near. So \<^verbatim>\<open>x += 1\<close> leaves \<open>2 ^ 53\<close> as it is.
\<close>

fun spacing :: "nat \<Rightarrow> nat" where
  "spacing m = (if m < 2 ^ 53 then 1 else 2 * spacing (m div 2))"

declare spacing.simps [simp del]

definition roundNat :: "nat \<Rightarrow> nat" where
  "roundNat m =
     (let u = spacing m; q = m div u; r = m mod u
      in if 2 * r < u \<or> (2 * r = u \<and> even q) then q * u else (q + 1) * u)"

definition toDouble :: "int \<Rightarrow> int" where
  "toDouble n = (if n < 0 then - int (roundNat (nat (- n))) else int (roundNat (nat n)))"

definition isNumber :: "int \<Rightarrow> bool" where
  "isNumber n \<longleftrightarrow> toDouble n = n"

definition addNum :: "int \<Rightarrow> int \<Rightarrow> int" where
  "addNum a b = toDouble (a + b)"

subsection \<open>Strings\<close>

text \<open>The decimal digits of a natural number, as \<^verbatim>\<open>String(n)\<close> prints an integer
  (below \<^verbatim>\<open>1e21\<close>, where JavaScript changes to the exponent notation; no property below
  depends on the digits of a number that large).\<close>

definition digit :: "nat \<Rightarrow> char" where
  "digit d = ''0123456789'' ! d"

fun decimal :: "nat \<Rightarrow> string" where
  "decimal n = (if n < 10 then [digit n] else decimal (n div 10) @ [digit (n mod 10)])"

declare decimal.simps [simp del]

definition numString :: "int \<Rightarrow> string" where
  "numString n = (if n < 0 then CHR ''-'' # decimal (nat (- n)) else decimal (nat n))"

text \<open>
  The string conversion of a template literal \<^verbatim>\<open>`${v}`\<close>. An array prints its elements
  separated by commas, \<^verbatim>\<open>null\<close> and \<^verbatim>\<open>undefined\<close> among them as nothing, so \<^verbatim>\<open>[]\<close>
  prints as the empty string. An object prints as \<^verbatim>\<open>[object Object]\<close>, unless it has a
  key \<^verbatim>\<open>toString\<close> of its own: a parsed value is not callable, and the conversion
  throws a \<^verbatim>\<open>TypeError\<close>.
\<close>

fun toString :: "jsval \<Rightarrow> exn + string"
  and join :: "jsval list \<Rightarrow> exn + string" where
  "toString JUndefined = Inr ''undefined''"
| "toString JNull = Inr ''null''"
| "toString (JBool b) = Inr (if b then ''true'' else ''false'')"
| "toString (JNum n) = Inr (numString n)"
| "toString (JStr s) = Inr s"
| "toString (JArr xs) = join xs"
| "toString (JObj kvs) =
     (if ''toString'' \<in> set (map fst kvs) then Inl TypeError else Inr ''[object Object]'')"
| "join [] = Inr []"
| "join (x # xs) =
     (case (case x of JUndefined \<Rightarrow> Inr [] | JNull \<Rightarrow> Inr [] | _ \<Rightarrow> toString x) of
        Inl err \<Rightarrow> Inl err
      | Inr s \<Rightarrow>
          (if xs = [] then Inr s
           else case join xs of Inl err \<Rightarrow> Inl err | Inr t \<Rightarrow> Inr (s @ '','' @ t)))"

text \<open>A request: the parsed body, the query parameters and the requested path.
  A field that the client did not send reads as \<^verbatim>\<open>undefined\<close>.\<close>

record request =
  body :: "string \<rightharpoonup> jsval"
  query :: "string \<rightharpoonup> jsval"
  url :: string

definition field :: "(string \<rightharpoonup> jsval) \<Rightarrow> string \<Rightarrow> jsval" where
  "field obj k = (case obj k of None \<Rightarrow> JUndefined | Some v \<Rightarrow> v)"

section \<open>The record store\<close>

text \<open>
  Modelled from the spec: the models \<^verbatim>\<open>Cat\<close> and \<^verbatim>\<open>Dog\<close> of \<^verbatim>\<open>../models\<close>, which the
  controllers require and which are not among the sources. The spec's data model gives a
  Cat a \<^verbatim>\<open>name\<close> (string), \<^verbatim>\<open>bedsOwned\<close> (integer) and \<^verbatim>\<open>createdDate\<close> (timestamp,
  defaulted to the creation time), and a Dog a \<^verbatim>\<open>name\<close> (string), \<^verbatim>\<open>breed\<close> (string) and
  \<^verbatim>\<open>age\<close> (integer). A collection is the list of its documents in insertion order; a
  document is identified by its position, which no operation changes.
\<close>

record cat =
  name :: string
  bedsOwned :: int
  createdDate :: nat

record dog =
  name :: string
  breed :: string
  age :: int

record store =
  cats :: "cat list"
  dogs :: "dog list"

text \<open>
  Modelled from the spec: what the schemas of \<^verbatim>\<open>../models\<close> decide and the handlers do
  not. \<open>castOther\<close> is what the schema makes of a value for an integer field that is not
  a number (the form of \<^verbatim>\<open>page2\<close> posts strings), \<open>None\<close> when it refuses the value.
  \<open>requiredStrings\<close> says that the string fields are declared required, as the data model
  has them; a required string field refuses the empty string. \<open>castFilter\<close> is what a
  query by name makes of a filter value that is not a string, a number or a boolean: the
  test it applies to the stored names, \<open>None\<close> when the query is refused.
\<close>

record models =
  castOther :: "jsval \<Rightarrow> int option"
  requiredStrings :: bool
  castFilter :: "jsval \<Rightarrow> (string \<Rightarrow> bool) option"

text \<open>
  Modelled from the spec: the queries and writes that the handlers call on the models of
  \<^verbatim>\<open>../models\<close>, each named after the call in the handler.
  A round trip to the store either resolves or rejects (the database is down, the query
  or the write fails); which one is not decided by the handler, so it is an argument of
  every store operation. A rejection reaches the handler as a thrown error, as does the
  \<^verbatim>\<open>TypeError\<close> of reading a property of \<^verbatim>\<open>null\<close>.
\<close>

datatype outcome = Resolves | Rejects

text \<open>
  The query \<^verbatim>\<open>sort: { createdDate: 'descending' }\<close> limited to one document: the
  position of a cat of maximal \<^verbatim>\<open>createdDate\<close>, the earliest inserted among equals.
\<close>

fun latestIndex :: "cat list \<Rightarrow> nat option" where
  "latestIndex [] = None"
| "latestIndex (c # cs) =
     (case latestIndex cs of
        None \<Rightarrow> Some 0
      | Some i \<Rightarrow> if createdDate c < createdDate (cs ! i) then Some (Suc i) else Some 0)"

text \<open>The first document of a collection that satisfies a filter, with its position.\<close>

fun findFirst :: "('a \<Rightarrow> bool) \<Rightarrow> 'a list \<Rightarrow> (nat \<times> 'a) option" where
  "findFirst P [] = None"
| "findFirst P (x # xs) =
     (if P x then Some (0, x) else map_option (\<lambda>(i, y). (Suc i, y)) (findFirst P xs))"

text \<open>\<^verbatim>\<open>Cat.findOne({}, {}, { sort: { createdDate: 'descending' } })\<close> and
  \<^verbatim>\<open>Cat.findOne({}).sort({ createdDate: 'descending' })\<close>.\<close>

definition Cat_findOne_latest :: "outcome \<Rightarrow> store \<Rightarrow> exn + cat option" where
  "Cat_findOne_latest db st =
     (case db of
        Rejects \<Rightarrow> Inl StoreError
      | Resolves \<Rightarrow> Inr (map_option (\<lambda>i. cats st ! i) (latestIndex (cats st))))"



text \<open>
  The filter \<^verbatim>\<open>{ name: v }\<close>: a string, a number or a boolean is compared, as a string,
  with the stored names; any other value is the schema's to interpret.
\<close>

definition nameFilter :: "models \<Rightarrow> jsval \<Rightarrow> (string \<Rightarrow> bool) option" where
  "nameFilter m v =
     (case v of
        JStr s \<Rightarrow> Some (\<lambda>n. n = s)
      | JNum k \<Rightarrow> Some (\<lambda>n. n = numString k)
      | JBool b \<Rightarrow> Some (\<lambda>n. n = (if b then ''true'' else ''false''))
      | _ \<Rightarrow> castFilter m v)"


definition Dog_findOne :: "models \<Rightarrow> outcome \<Rightarrow> jsval \<Rightarrow> store \<Rightarrow> exn + (nat \<times> dog) option" where
  "Dog_findOne m db v st =
     (case db of
        Rejects \<Rightarrow> Inl StoreError
      | Resolves \<Rightarrow>
          (case nameFilter m v of
             None \<Rightarrow> Inl StoreError
           | Some P \<Rightarrow> Inr (findFirst (\<lambda>d. P (dog.name d)) (dogs st))))"

text \<open>The integer fields: a number is stored as it is, any other value as the schema
  casts it.\<close>

definition castNumber :: "models \<Rightarrow> jsval \<Rightarrow> int option" where
  "castNumber m v = (case v of JNum n \<Rightarrow> Some n | _ \<Rightarrow> castOther m v)"

text \<open>\<^verbatim>\<open>new Cat(catData)\<close> and \<^verbatim>\<open>new Dog(dogData)\<close>: the document to be saved, with the
  creation time as \<^verbatim>\<open>createdDate\<close> of a cat. A document that the schema refuses (an
  integer field that does not cast, a required string that is empty) is \<open>None\<close>.\<close>

definition Cat_new :: "models \<Rightarrow> nat \<Rightarrow> string \<Rightarrow> jsval \<Rightarrow> cat option" where
  "Cat_new m now n b =
     (if requiredStrings m \<and> n = [] then None
      else map_option (\<lambda>k. \<lparr>cat.name = n, bedsOwned = k, createdDate = now\<rparr>) (castNumber m b))"

definition Dog_new :: "models \<Rightarrow> string \<Rightarrow> string \<Rightarrow> jsval \<Rightarrow> dog option" where
  "Dog_new m n b a =
     (if requiredStrings m \<and> (n = [] \<or> b = []) then None
      else map_option (\<lambda>k. \<lparr>dog.name = n, breed = b, age = k\<rparr>) (castNumber m a))"

text \<open>\<^verbatim>\<open>newCat.save()\<close> and \<^verbatim>\<open>newDog.save()\<close>: a new document is appended to its
  collection; the write rejects when the store does or when the document is refused.\<close>

definition Cat_save :: "outcome \<Rightarrow> cat option \<Rightarrow> store \<Rightarrow> exn + cat \<times> store" where
  "Cat_save db doc st =
     (case db of
        Rejects \<Rightarrow> Inl StoreError
      | Resolves \<Rightarrow>
          (case doc of
             None \<Rightarrow> Inl StoreError
           | Some c \<Rightarrow> Inr (c, st\<lparr>cats := cats st @ [c]\<rparr>)))"

definition Dog_save :: "outcome \<Rightarrow> dog option \<Rightarrow> store \<Rightarrow> exn + dog \<times> store" where
  "Dog_save db doc st =
     (case db of
        Rejects \<Rightarrow> Inl StoreError
      | Resolves \<Rightarrow>
          (case doc of
             None \<Rightarrow> Inl StoreError
           | Some d \<Rightarrow> Inr (d, st\<lparr>dogs := dogs st @ [d]\<rparr>)))"

text \<open>\<^verbatim>\<open>doc.save()\<close> of a dog that was read from the store: the document at its position
  is replaced. When no field of the document was modified, the store is left as it is.\<close>

definition Dog_update :: "outcome \<Rightarrow> nat \<times> dog \<Rightarrow> store \<Rightarrow> exn + store" where
  "Dog_update db doc st =
     (case db of
        Rejects \<Rightarrow> Inl StoreError
      | Resolves \<Rightarrow>
          (if fst doc < length (dogs st)
           then Inr (st\<lparr>dogs := (dogs st)[fst doc := snd doc]\<rparr>)
           else Inl StoreError))"

text \<open>
  \<^verbatim>\<open>Cat.findOneAndUpdate({}, { $inc: { bedsOwned: 1 } }, { returnDocument: 'after',
  sort: { createdDate: 'descending' } })\<close>: one round trip that adds 1 to \<^verbatim>\<open>bedsOwned\<close>
  of the most recent cat, as numbers add, and returns the document after the update, or
  \<^verbatim>\<open>null\<close> and no change when there is no cat.
\<close>

datatype 'a promise = Fulfilled 'a | Rejected exn

definition Cat_findOneAndUpdate :: "outcome \<Rightarrow> store \<Rightarrow> cat option promise \<times> store" where
  "Cat_findOneAndUpdate db st =
     (case db of
        Rejects \<Rightarrow> (Rejected StoreError, st)
      | Resolves \<Rightarrow>
          (case latestIndex (cats st) of
             None \<Rightarrow> (Fulfilled None, st)
           | Some i \<Rightarrow>
               (let doc = (cats st ! i)\<lparr>bedsOwned := addNum (bedsOwned (cats st ! i)) 1\<rparr>
                in (Fulfilled (Some doc), st\<lparr>cats := (cats st)[i := doc]\<rparr>))))"

section \<open>The handlers\<close>

text \<open>
  A handler answers through \<^verbatim>\<open>res\<close> and logs through \<^verbatim>\<open>console.log\<close>; what it returns
  is discarded. Its result here is the sequence of its effects, in the order in which they
  happen, and the store it leaves. \<open>Write\<close> is a change that the store applied, \<open>Send\<close> a
  response that was emitted, \<open>Unhandled\<close> an error that the handler throws or a rejection
  that none of its continuations handles. \<^verbatim>\<open>res.json\<close> and \<^verbatim>\<open>res.render\<close> answer with
  status 200 unless \<^verbatim>\<open>res.status\<close> was called first.
\<close>

datatype viewval = VStr string | VCats "cat list" | VDogs "dog list"

datatype response =
    Json nat "(string \<times> jsval) list"
  | Render nat string "(string \<times> viewval) list"

datatype logged = Err exn | DogModel

datatype event = Log logged | Write | Send response | Unhandled exn

type_synonym result = "event list \<times> store"

text \<open>The write, if any, that took the store from one state to the next.\<close>

definition written :: "store \<Rightarrow> store \<Rightarrow> event list" where
  "written st st' = (if st' = st then [] else [Write])"

definition hostIndex :: "outcome \<Rightarrow> store \<Rightarrow> result" where
  "hostIndex db st =
     (let (name, logs) =
        (case Cat_findOne_latest db st of
           Inr doc \<Rightarrow> (case doc of Some c \<Rightarrow> (cat.name c, []) | None \<Rightarrow> (''unknown'', []))
         | Inl err \<Rightarrow> (''unknown'', [Log (Err err)]))
      in (logs @ [Send (Render 200 ''index''
                    [(''currentName'', VStr name), (''title'', VStr ''Home''),
                     (''pageName'', VStr ''Home Page'')])], st))"





definition getName :: "outcome \<Rightarrow> store \<Rightarrow> result" where
  "getName db st =
     (case Cat_findOne_latest db st of
        Inr doc \<Rightarrow>
          (case doc of
             Some c \<Rightarrow> ([Send (Json 200 [(''name'', JStr (cat.name c))])], st)
           | None \<Rightarrow> ([Send (Json 404 [(''error'', JStr ''No cat found'')])], st))
      | Inl err \<Rightarrow>
          ([Log (Err err),
            Send (Json 500 [(''error'', JStr ''Something went wrong contacting the database'')])],
           st))"

text \<open>
  \<open>now\<close> is the time at which \<^verbatim>\<open>new Cat\<close> runs. The template literal of \<^verbatim>\<open>catData\<close> is
  evaluated before the \<^verbatim>\<open>try\<close> block, so what it throws leaves the handler.
\<close>

definition setName :: "models \<Rightarrow> nat \<Rightarrow> outcome \<Rightarrow> request \<Rightarrow> store \<Rightarrow> result" where
  "setName m now db req st =
     (if falsy (field (body req) ''firstname'') \<or> falsy (field (body req) ''lastname'')
         \<or> falsy (field (body req) ''beds'')
      then ([Send (Json 400
                [(''error'', JStr ''firstname, lastname and beds are all required'')])], st)
      else
        (case toString (field (body req) ''firstname'') of
           Inl err \<Rightarrow> ([Unhandled err], st)
         | Inr firstname \<Rightarrow>
        (case toString (field (body req) ''lastname'') of
           Inl err \<Rightarrow> ([Unhandled err], st)
         | Inr lastname \<Rightarrow>
        (let newCat = Cat_new m now (firstname @ '' '' @ lastname) (field (body req) ''beds'')
         in case Cat_save db newCat st of
              Inr (saved, st') \<Rightarrow>
                (written st st' @
                 [Send (Json 201 [(''name'', JStr (cat.name saved)),
                                  (''beds'', JNum (bedsOwned saved))])], st')
            | Inl err \<Rightarrow>
                ([Log (Err err), Send (Json 500 [(''error'', JStr ''failed to create cat'')])],
                 st)))))"


text \<open>
  \<^verbatim>\<open>updateLast\<close> attaches two continuations to the same promise. The one given to
  \<^verbatim>\<open>then\<close> runs when the update resolves; it reads \<^verbatim>\<open>doc.name\<close>, which throws when
  \<^verbatim>\<open>doc\<close> is \<^verbatim>\<open>null\<close>. What it throws rejects the promise that \<^verbatim>\<open>then\<close> returned, on
  which nothing waits. The one given to \<^verbatim>\<open>catch\<close> runs only when the update itself
  rejects; then the promise of \<^verbatim>\<open>then\<close> is rejected as well. A rejection that nothing
  handles is reported once the continuations have run.
\<close>

definition updateLast_then :: "cat option \<Rightarrow> exn + event list" where
  "updateLast_then doc =
     (case doc of
        None \<Rightarrow> Inl TypeError
      | Some c \<Rightarrow> Inr [Send (Json 200 [(''name'', JStr (cat.name c)),
                                       (''beds'', JNum (bedsOwned c))])])"

definition updateLast_catch :: "exn \<Rightarrow> event list" where
  "updateLast_catch err =
     [Log (Err err), Send (Json 500 [(''error'', JStr ''Something went wrong'')])]"

definition updateLast :: "outcome \<Rightarrow> store \<Rightarrow> result" where
  "updateLast db st =
     (let (updatePromise, st') = Cat_findOneAndUpdate db st
      in case updatePromise of
           Fulfilled doc \<Rightarrow>
             (written st st' @
              (case updateLast_then doc of Inr sent \<Rightarrow> sent | Inl err \<Rightarrow> [Unhandled err]), st')
         | Rejected err \<Rightarrow> (updateLast_catch err @ [Unhandled err], st'))"

definition setDogName :: "models \<Rightarrow> outcome \<Rightarrow> request \<Rightarrow> store \<Rightarrow> result" where
  "setDogName m db req st =
     (if falsy (field (body req) ''name'') \<or> falsy (field (body req) ''breed'')
         \<or> falsy (field (body req) ''age'')
      then ([Send (Json 400 [(''error'', JStr ''name, breed and age are all required'')])], st)
      else
        (case toString (field (body req) ''name'') of
           Inl err \<Rightarrow> ([Unhandled err], st)
         | Inr dogName \<Rightarrow>
        (case toString (field (body req) ''breed'') of
           Inl err \<Rightarrow> ([Unhandled err], st)
         | Inr dogBreed \<Rightarrow>
        (let newDog = Dog_new m dogName dogBreed (field (body req) ''age'')
         in case Dog_save db newDog st of
              Inr (saved, st') \<Rightarrow>
                (written st st' @
                 [Send (Json 201 [(''name'', JStr (dog.name saved)),
                                  (''breed'', JStr (breed saved)),
                                  (''age'', JNum (age saved))])], st')
            | Inl err \<Rightarrow>
                ([Log (Err err), Send (Json 500 [(''error'', JStr ''failed to create dog'')])],
                 st)))))"

text \<open>
  The \<^verbatim>\<open>try\<close> block of \<^verbatim>\<open>searchDogName\<close>: the query, the increment of \<^verbatim>\<open>doc.age\<close>,
  which throws a \<^verbatim>\<open>TypeError\<close> when the query found nothing and otherwise adds as
  numbers add, and the write. It ends with the value of \<^verbatim>\<open>doc\<close> and the store, or with
  what was thrown.
\<close>

definition searchDogName_try ::
  "models \<Rightarrow> outcome \<Rightarrow> outcome \<Rightarrow> request \<Rightarrow> store \<Rightarrow> exn + (nat \<times> dog) option \<times> store" where
  "searchDogName_try m dbFind dbSave req st =
     (case Dog_findOne m dbFind (field (body req) ''dogname'') st of
        Inl err \<Rightarrow> Inl err
      | Inr found \<Rightarrow>
          (case found of
             None \<Rightarrow> Inl TypeError
           | Some (i, d) \<Rightarrow>
               (let doc = (i, d\<lparr>age := addNum (age d) 1\<rparr>)
                in case Dog_update dbSave doc st of
                     Inl err \<Rightarrow> Inl err
                   | Inr st' \<Rightarrow> Inr (Some doc, st'))))"

definition searchDogName :: "models \<Rightarrow> outcome \<Rightarrow> outcome \<Rightarrow> request \<Rightarrow> store \<Rightarrow> result" where
  "searchDogName m dbFind dbSave req st =
     (if falsy (field (body req) ''dogname'')
      then ([Log DogModel,
             Send (Json 400 [(''error'', JStr ''Name is required to perform a search'')])], st)
      else
        (case searchDogName_try m dbFind dbSave req st of
           Inl err \<Rightarrow>
             ([Log (Err err), Send (Json 500 [(''error'', JStr ''Something went wrong'')])], st)
         | Inr (doc, st') \<Rightarrow>
             (written st st' @
              (case doc of
                 None \<Rightarrow> [Send (Json 404 [(''error'', JStr ''No dog found'')])]
               | Some (i, d) \<Rightarrow>
                   [Send (Json 200 [(''name'', JStr (dog.name d)),
                                    (''breed'', JStr (breed d)),
                                    (''age'', JNum (age d))])]), st')))"




text \<open>The invariant of the data model: every stored record has a non-empty name.\<close>

definition named :: "store \<Rightarrow> bool" where
  "named st \<longleftrightarrow> list_all (\<lambda>c. cat.name c \<noteq> []) (cats st) \<and> list_all (\<lambda>d. dog.name d \<noteq> []) (dogs st)"


text \<open>The responses of a run, in the order in which they were emitted.\<close>

fun responses :: "event list \<Rightarrow> response list" where
  "responses [] = []"
| "responses (Send r # es) = r # responses es"
| "responses (e # es) = responses es"

fun status :: "response \<Rightarrow> nat" where
  "status (Json code obj) = code"
| "status (Render code view context) = code"


section \<open>Example inputs\<close>

text \<open>
  A schema that refuses every value it is asked to interpret and has its strings
  required; one that reads the digits of a string as a number; one that does not require
  its strings. A request with a given body, the store with no record, a store with three
  cats and two dogs, and stores whose numbers are at the end of the exact integers.
\<close>

definition strict :: models where
  "strict = \<lparr>castOther = (\<lambda>v. None), requiredStrings = True, castFilter = (\<lambda>v. None)\<rparr>"

definition reading :: models where
  "reading =
     \<lparr>castOther = (\<lambda>v. if v = JStr ''0'' then Some 0 else None), requiredStrings = True,
      castFilter = (\<lambda>v. None)\<rparr>"

definition lax :: models where
  "lax = \<lparr>castOther = (\<lambda>v. None), requiredStrings = False, castFilter = (\<lambda>v. None)\<rparr>"

definition post :: "(string \<times> jsval) list \<Rightarrow> request" where
  "post kvs = \<lparr>body = map_of kvs, query = Map.empty, url = ''/''\<rparr>"

definition emptyStore :: store where
  "emptyStore = \<lparr>cats = [], dogs = []\<rparr>"

definition someCats :: "cat list" where
  "someCats =
     [\<lparr>cat.name = ''Tom Cat'', bedsOwned = 3, createdDate = 5\<rparr>,
      \<lparr>cat.name = ''Kit Kat'', bedsOwned = 1, createdDate = 9\<rparr>,
      \<lparr>cat.name = ''Old Tom'', bedsOwned = 7, createdDate = 2\<rparr>]"

definition someDogs :: "dog list" where
  "someDogs =
     [\<lparr>dog.name = ''Fido'', breed = ''Pug'', age = 2\<rparr>,
      \<lparr>dog.name = ''Rex'', breed = ''Lab'', age = 4\<rparr>]"

definition someStore :: store where
  "someStore = \<lparr>cats = someCats, dogs = someDogs\<rparr>"

definition oldDogStore :: store where
  "oldDogStore =
     \<lparr>cats = [], dogs = [\<lparr>dog.name = ''Rex'', breed = ''Lab'', age = 9007199254740992\<rparr>]\<rparr>"

definition manyBedsStore :: store where
  "manyBedsStore =
     \<lparr>cats = [\<lparr>cat.name = ''Tom Cat'', bedsOwned = 9007199254740992, createdDate = 5\<rparr>],
      dogs = []\<rparr>"

section \<open>Numbers, strings and queries\<close>

text \<open>Up to \<open>2 ^ 53\<close> in magnitude an integer is a number, and adding 1 is exact from
  \<open>- (2 ^ 53)\<close> to just below \<open>2 ^ 53\<close>; at \<open>2 ^ 53\<close> it changes nothing.\<close>

lemma spacing_small: "m < 2 ^ 53 \<Longrightarrow> spacing m = 1"
  by (subst spacing.simps) simp

lemma roundNat_exact: "m \<le> 2 ^ 53 \<Longrightarrow> roundNat m = m"
proof (cases "m < 2 ^ 53")
  case True
  then show ?thesis by (simp add: roundNat_def spacing_small)
next
  case False
  assume "m \<le> 2 ^ 53"
  with False have m: "m = 2 ^ 53" by simp
  have "spacing m = 2"
    unfolding m by (subst spacing.simps) (simp add: spacing_small)
  then show ?thesis by (simp add: roundNat_def m)
qed

lemma toDouble_exact: "\<bar>n\<bar> \<le> 2 ^ 53 \<Longrightarrow> toDouble n = n"
  by (simp add: toDouble_def roundNat_exact nat_le_iff)

lemma isNumber_exact: "\<bar>n\<bar> \<le> 2 ^ 53 \<Longrightarrow> isNumber n"
  by (simp add: isNumber_def toDouble_exact)

lemma addNum_one: "- (2 ^ 53) \<le> a \<Longrightarrow> a < 2 ^ 53 \<Longrightarrow> addNum a 1 = a + 1"
  by (simp add: addNum_def toDouble_exact)

lemma addNum_top: "addNum 9007199254740992 1 = 9007199254740992"
proof -
  have "spacing 9007199254740993 = 2"
    by (subst spacing.simps) (simp add: spacing_small)
  then show ?thesis by (simp add: addNum_def toDouble_def roundNat_def)
qed

lemma not_isNumber: "\<not> isNumber 9007199254740993"
proof -
  have "spacing 9007199254740993 = 2"
    by (subst spacing.simps) (simp add: spacing_small)
  then show ?thesis by (simp add: isNumber_def toDouble_def roundNat_def)
qed



lemma toString_primitive: "primitive v \<Longrightarrow> \<exists>s. toString v = Inr s"
  by (cases v) simp_all


lemma empty_array_prints_empty: "\<not> falsy (JArr []) \<and> toString (JArr []) = Inr []"
  by simp

lemma store_dogs_eq: "st\<lparr>dogs := ds\<rparr> = st \<longleftrightarrow> ds = dogs st"
  by (cases st) simp

lemma store_cats_eq: "st\<lparr>cats := cs\<rparr> = st \<longleftrightarrow> cs = cats st"
  by (cases st) simp

lemma list_update_changes: "i < length xs \<Longrightarrow> y \<noteq> xs ! i \<Longrightarrow> xs[i := y] \<noteq> xs"
  by (metis nth_list_update_eq)

lemma latestIndex_None: "latestIndex cs = None \<longleftrightarrow> cs = []"
  by (cases cs) (simp_all split: option.splits)

lemma latestIndex_less: "latestIndex cs = Some i \<Longrightarrow> i < length cs"
  by (induction cs arbitrary: i) (auto split: option.splits if_splits)

lemma latestIndex_max:
  "latestIndex cs = Some i \<Longrightarrow> c \<in> set cs \<Longrightarrow> createdDate c \<le> createdDate (cs ! i)"
proof (induction cs arbitrary: i)
  case Nil
  then show ?case by simp
next
  case (Cons a cs)
  show ?case
  proof (cases "latestIndex cs")
    case None
    then have "cs = []" by (simp add: latestIndex_None)
    with Cons.prems show ?thesis by simp
  next
    case (Some j)
    with Cons.prems Cons.IH [OF Some] show ?thesis
      by (auto split: if_splits simp: not_less intro: order_trans less_imp_le)
  qed
qed

lemma latestIndex_dates:
  "map createdDate cs = map createdDate ds \<Longrightarrow> latestIndex cs = latestIndex ds"
proof (induction cs arbitrary: ds)
  case Nil
  then show ?case by simp
next
  case (Cons c cs)
  then obtain d ds' where ds: "ds = d # ds'" by (cases ds) auto
  with Cons.prems have eq: "createdDate c = createdDate d" "map createdDate cs = map createdDate ds'"
    by simp_all
  have ih: "latestIndex cs = latestIndex ds'" by (rule Cons.IH [OF eq(2)])
  show ?case
  proof (cases "latestIndex ds'")
    case None
    with ih ds show ?thesis by simp
  next
    case (Some i)
    then have "i < length ds'" by (rule latestIndex_less)
    then have "createdDate (cs ! i) = createdDate (ds' ! i)"
      using eq(2) by (metis length_map nth_map)
    with ih ds Some eq(1) show ?thesis by simp
  qed
qed

lemma latestIndex_update:
  assumes "createdDate d = createdDate (cs ! i)"
  shows "latestIndex (cs[i := d]) = latestIndex cs"
proof (cases "i < length cs")
  case True
  with assms have "map createdDate (cs[i := d]) = map createdDate cs"
    by (simp add: map_update list_update_same_conv)
  then show ?thesis by (rule latestIndex_dates)
next
  case False
  then show ?thesis by (simp add: not_less list_update_beyond)
qed

lemma findFirst_Some:
  "findFirst P xs = Some (i, x) \<Longrightarrow> i < length xs \<and> xs ! i = x \<and> P x \<and> (\<forall>j<i. \<not> P (xs ! j))"
proof (induction xs arbitrary: i)
  case Nil
  then show ?case by simp
next
  case (Cons a xs)
  show ?case
  proof (cases "P a")
    case True
    with Cons.prems show ?thesis by simp
  next
    case False
    with Cons.prems obtain k where k: "findFirst P xs = Some (k, x)" "i = Suc k"
      by auto
    from Cons.IH [OF k(1)] False k(2) show ?thesis
      by (auto simp: less_Suc_eq_0_disj)
  qed
qed

lemma findFirst_None: "findFirst P xs = None \<longleftrightarrow> (\<forall>x\<in>set xs. \<not> P x)"
  by (induction xs) auto

lemma findFirst_exists: "x \<in> set xs \<Longrightarrow> P x \<Longrightarrow> \<exists>i y. findFirst P xs = Some (i, y)"
  using findFirst_None [of P xs] by (cases "findFirst P xs") auto

section \<open>Creating a cat\<close>

text \<open>
  Claim C1 says that \<^verbatim>\<open>setName\<close> answers 201 for every body whose \<^verbatim>\<open>firstname\<close> and
  \<^verbatim>\<open>lastname\<close> are non-empty strings and whose \<^verbatim>\<open>beds\<close> is an integer, and stores the
  cat. For the integer 0 the code does not: the guard, which its comment describes as a
  test for missing data, is \<^verbatim>\<open>!req.body.beds\<close>, so with Tom, Cat and 0 beds \<^verbatim>\<open>setName\<close>
  answers 400 and writes nothing, whatever the schema and with the store up.
\<close>

theorem setName_zero_beds_refused:
  "setName strict 10 Resolves
     (post [(''firstname'', JStr ''Tom''), (''lastname'', JStr ''Cat''), (''beds'', JNum 0)])
     emptyStore
   = ([Send (Json 400 [(''error'', JStr ''firstname, lastname and beds are all required'')])],
      emptyStore)"
  by (simp add: setName_def field_def post_def)

text \<open>For every other integer the handler does what the claim says when the write
  resolves, and it stores a cat with 0 beds when the 0 arrives as a string that the schema
  reads as a number.\<close>

lemma setName_created:
  assumes "body req ''firstname'' = Some (JStr f)" and "f \<noteq> []"
    and "body req ''lastname'' = Some (JStr l)" and "l \<noteq> []"
    and "body req ''beds'' = Some (JNum b)" and "b \<noteq> 0"
  shows "setName m now Resolves req st =
     ([Write, Send (Json 201 [(''name'', JStr (f @ '' '' @ l)), (''beds'', JNum b)])],
      st\<lparr>cats := cats st @ [\<lparr>cat.name = f @ '' '' @ l, bedsOwned = b, createdDate = now\<rparr>]\<rparr>)"
  using assms
  by (simp add: setName_def field_def Cat_new_def castNumber_def Cat_save_def written_def
      store_cats_eq)

lemma setName_string_zero:
  "setName reading 10 Resolves
     (post [(''firstname'', JStr ''Tom''), (''lastname'', JStr ''Cat''), (''beds'', JStr ''0'')])
     emptyStore
   = ([Write, Send (Json 201 [(''name'', JStr ''Tom Cat''), (''beds'', JNum 0)])],
      \<lparr>cats = [\<lparr>cat.name = ''Tom Cat'', bedsOwned = 0, createdDate = 10\<rparr>], dogs = []\<rparr>)"
  by (simp add: setName_def field_def post_def Cat_new_def castNumber_def Cat_save_def
      written_def reading_def emptyStore_def)

text \<open>
  Claim C4: when at least one of \<^verbatim>\<open>firstname\<close>, \<^verbatim>\<open>lastname\<close> and \<^verbatim>\<open>beds\<close> is missing
  from the body, \<^verbatim>\<open>setName\<close> answers 400 with a JSON \<^verbatim>\<open>{error}\<close> body and writes
  nothing: the store after the call is the store before it, whatever the store would have
  answered.
\<close>

theorem setName_missing_field:
  assumes "body req ''firstname'' = None \<or> body req ''lastname'' = None \<or> body req ''beds'' = None"
  shows "setName m now db req st =
     ([Send (Json 400 [(''error'', JStr ''firstname, lastname and beds are all required'')])], st)"
  using assms by (auto simp add: setName_def field_def)

theorem setName_missing_field_witness:
  "setName strict 10 Resolves (post [(''firstname'', JStr ''Tom''), (''beds'', JNum 3)]) someStore
   = ([Send (Json 400 [(''error'', JStr ''firstname, lastname and beds are all required'')])],
      someStore)"
  using setName_missing_field [of "post [(''firstname'', JStr ''Tom''), (''beds'', JNum 3)]"
      strict 10 Resolves someStore]
  by (simp add: post_def)

text \<open>
  Claim C10: the guards of the create operations test truthiness, not presence. For every
  body whose \<^verbatim>\<open>beds\<close> is the number 0, \<^verbatim>\<open>setName\<close> answers 400 and writes nothing, and
  for every body whose \<^verbatim>\<open>age\<close> is the number 0, \<^verbatim>\<open>setDogName\<close> answers 400 and writes
  nothing, although the field is present and 0 is an integer, and whatever the store would
  have answered.
\<close>

theorem zero_counts_as_missing:
  "(body req ''beds'' = Some (JNum 0) \<longrightarrow>
      setName m now db req st =
        ([Send (Json 400 [(''error'', JStr ''firstname, lastname and beds are all required'')])],
         st)) \<and>
   (body req ''age'' = Some (JNum 0) \<longrightarrow>
      setDogName m db req st =
        ([Send (Json 400 [(''error'', JStr ''name, breed and age are all required'')])], st))"
  by (simp add: setName_def setDogName_def field_def)

theorem zero_counts_as_missing_witness:
  "setName strict 10 Resolves
     (post [(''firstname'', JStr ''Tom''), (''lastname'', JStr ''Cat''), (''beds'', JNum 0)])
     someStore =
     ([Send (Json 400 [(''error'', JStr ''firstname, lastname and beds are all required'')])],
      someStore) \<and>
   setDogName strict Resolves
     (post [(''name'', JStr ''Pup''), (''breed'', JStr ''Lab''), (''age'', JNum 0)])
     someStore =
     ([Send (Json 400 [(''error'', JStr ''name, breed and age are all required'')])], someStore)"
  using zero_counts_as_missing [of "post [(''firstname'', JStr ''Tom''), (''lastname'', JStr ''Cat''), (''beds'', JNum 0)]"
      strict 10 Resolves someStore]
    zero_counts_as_missing [of "post [(''name'', JStr ''Pup''), (''breed'', JStr ''Lab''), (''age'', JNum 0)]"
      strict 10 Resolves someStore]
  by (simp add: post_def)

section \<open>The most recent cat\<close>

text \<open>The sorted query finds nothing in an empty collection, and otherwise a cat whose
  \<^verbatim>\<open>createdDate\<close> no other cat exceeds.\<close>

lemma Cat_findOne_latest_empty: "cats st = [] \<Longrightarrow> Cat_findOne_latest Resolves st = Inr None"
  by (simp add: Cat_findOne_latest_def)

lemma Cat_findOne_latest_some:
  assumes "cats st \<noteq> []"
  shows "\<exists>c\<in>set (cats st). (\<forall>d\<in>set (cats st). createdDate d \<le> createdDate c) \<and>
           Cat_findOne_latest Resolves st = Inr (Some c)"
proof -
  from assms obtain i where i: "latestIndex (cats st) = Some i"
    by (cases "latestIndex (cats st)") (simp_all add: latestIndex_None)
  then have "i < length (cats st)" by (rule latestIndex_less)
  then have "cats st ! i \<in> set (cats st)" by simp
  moreover have "\<forall>d\<in>set (cats st). createdDate d \<le> createdDate (cats st ! i)"
    using i by (blast intro: latestIndex_max)
  moreover have "Cat_findOne_latest Resolves st = Inr (Some (cats st ! i))"
    using i by (simp add: Cat_findOne_latest_def)
  ultimately show ?thesis by blast
qed

text \<open>
  Claim C5: \<^verbatim>\<open>getName\<close> answers 200 with the JSON body \<^verbatim>\<open>{name}\<close>, the name of a cat of
  maximal \<^verbatim>\<open>createdDate\<close>, whenever at least one cat exists; 404 with a JSON \<^verbatim>\<open>{error}\<close>
  body when no cat exists; and 500 with a JSON \<^verbatim>\<open>{error}\<close> body, after logging the error,
  when the query fails. It never changes the store.
\<close>

theorem getName_contract:
  "(cats st \<noteq> [] \<longrightarrow>
      (\<exists>c\<in>set (cats st). (\<forall>d\<in>set (cats st). createdDate d \<le> createdDate c) \<and>
         getName Resolves st = ([Send (Json 200 [(''name'', JStr (cat.name c))])], st))) \<and>
   (cats st = [] \<longrightarrow>
      getName Resolves st = ([Send (Json 404 [(''error'', JStr ''No cat found'')])], st)) \<and>
   getName Rejects st =
     ([Log (Err StoreError),
       Send (Json 500 [(''error'', JStr ''Something went wrong contacting the database'')])], st)"
proof (intro conjI impI)
  assume "cats st \<noteq> []"
  from Cat_findOne_latest_some [OF this]
  show "\<exists>c\<in>set (cats st). (\<forall>d\<in>set (cats st). createdDate d \<le> createdDate c) \<and>
         getName Resolves st = ([Send (Json 200 [(''name'', JStr (cat.name c))])], st)"
    by (auto simp add: getName_def)
next
  assume "cats st = []"
  then show "getName Resolves st = ([Send (Json 404 [(''error'', JStr ''No cat found'')])], st)"
    by (simp add: getName_def Cat_findOne_latest_empty)
next
  show "getName Rejects st =
     ([Log (Err StoreError),
       Send (Json 500 [(''error'', JStr ''Something went wrong contacting the database'')])], st)"
    by (simp add: getName_def Cat_findOne_latest_def)
qed

theorem getName_contract_witness:
  "getName Resolves someStore = ([Send (Json 200 [(''name'', JStr ''Kit Kat'')])], someStore) \<and>
   getName Resolves emptyStore = ([Send (Json 404 [(''error'', JStr ''No cat found'')])], emptyStore) \<and>
   getName Rejects someStore =
     ([Log (Err StoreError),
       Send (Json 500 [(''error'', JStr ''Something went wrong contacting the database'')])],
      someStore)"
  using getName_contract [of someStore] getName_contract [of emptyStore]
  by (simp add: someStore_def someCats_def emptyStore_def getName_def Cat_findOne_latest_def)

text \<open>
  Claim C6: \<^verbatim>\<open>hostIndex\<close> always answers 200 and renders the view \<^verbatim>\<open>index\<close>: with the
  name of a cat of maximal \<^verbatim>\<open>createdDate\<close> when a cat exists, and with the literal string
  \<^verbatim>\<open>unknown\<close> when there is no cat or when the query fails; in that last case the error is
  logged and nothing else happens.
\<close>

theorem hostIndex_contract:
  "(cats st \<noteq> [] \<longrightarrow>
      (\<exists>c\<in>set (cats st). (\<forall>d\<in>set (cats st). createdDate d \<le> createdDate c) \<and>
         hostIndex Resolves st =
           ([Send (Render 200 ''index''
               [(''currentName'', VStr (cat.name c)), (''title'', VStr ''Home''),
                (''pageName'', VStr ''Home Page'')])], st))) \<and>
   (cats st = [] \<longrightarrow>
      hostIndex Resolves st =
        ([Send (Render 200 ''index''
            [(''currentName'', VStr ''unknown''), (''title'', VStr ''Home''),
             (''pageName'', VStr ''Home Page'')])], st)) \<and>
   hostIndex Rejects st =
     ([Log (Err StoreError),
       Send (Render 200 ''index''
          [(''currentName'', VStr ''unknown''), (''title'', VStr ''Home''),
           (''pageName'', VStr ''Home Page'')])], st) \<and>
   (\<exists>n. responses (fst (hostIndex db st)) =
      [Render 200 ''index''
         [(''currentName'', VStr n), (''title'', VStr ''Home''), (''pageName'', VStr ''Home Page'')]])"
proof (intro conjI impI)
  assume "cats st \<noteq> []"
  from Cat_findOne_latest_some [OF this]
  show "\<exists>c\<in>set (cats st). (\<forall>d\<in>set (cats st). createdDate d \<le> createdDate c) \<and>
         hostIndex Resolves st =
           ([Send (Render 200 ''index''
               [(''currentName'', VStr (cat.name c)), (''title'', VStr ''Home''),
                (''pageName'', VStr ''Home Page'')])], st)"
    by (auto simp add: hostIndex_def)
next
  assume "cats st = []"
  then show "hostIndex Resolves st =
        ([Send (Render 200 ''index''
            [(''currentName'', VStr ''unknown''), (''title'', VStr ''Home''),
             (''pageName'', VStr ''Home Page'')])], st)"
    by (simp add: hostIndex_def Cat_findOne_latest_empty)
next
  show "hostIndex Rejects st =
     ([Log (Err StoreError),
       Send (Render 200 ''index''
          [(''currentName'', VStr ''unknown''), (''title'', VStr ''Home''),
           (''pageName'', VStr ''Home Page'')])], st)"
    by (simp add: hostIndex_def Cat_findOne_latest_def)
next
  show "\<exists>n. responses (fst (hostIndex db st)) =
      [Render 200 ''index''
         [(''currentName'', VStr n), (''title'', VStr ''Home''), (''pageName'', VStr ''Home Page'')]]"
    by (cases db; cases "latestIndex (cats st)")
       (simp_all add: hostIndex_def Cat_findOne_latest_def)
qed

theorem hostIndex_contract_witness:
  "hostIndex Resolves someStore =
     ([Send (Render 200 ''index''
         [(''currentName'', VStr ''Kit Kat''), (''title'', VStr ''Home''),
          (''pageName'', VStr ''Home Page'')])], someStore) \<and>
   hostIndex Resolves emptyStore =
     ([Send (Render 200 ''index''
         [(''currentName'', VStr ''unknown''), (''title'', VStr ''Home''),
          (''pageName'', VStr ''Home Page'')])], emptyStore)"
  using hostIndex_contract [of someStore Resolves] hostIndex_contract [of emptyStore Resolves]
  by (simp add: someStore_def someCats_def emptyStore_def hostIndex_def Cat_findOne_latest_def)

section \<open>Incrementing the beds of the most recent cat\<close>

lemma updateLast_step:
  assumes "latestIndex (cats st) = Some i"
  shows "updateLast Resolves st =
           (written st
              (st\<lparr>cats := (cats st)[i := (cats st ! i)
                        \<lparr>bedsOwned := addNum (bedsOwned (cats st ! i)) 1\<rparr>]\<rparr>) @
            [Send (Json 200 [(''name'', JStr (cat.name (cats st ! i))),
                             (''beds'', JNum (addNum (bedsOwned (cats st ! i)) 1))])],
            st\<lparr>cats := (cats st)[i := (cats st ! i)
                      \<lparr>bedsOwned := addNum (bedsOwned (cats st ! i)) 1\<rparr>]\<rparr>)"
  using assms by (simp add: updateLast_def Cat_findOneAndUpdate_def updateLast_then_def Let_def)

lemma updateLast_exact:
  assumes i: "latestIndex (cats st) = Some i"
    and lo: "- (2 ^ 53) \<le> bedsOwned (cats st ! i)" and hi: "bedsOwned (cats st ! i) < 2 ^ 53"
  shows "updateLast Resolves st =
           ([Write, Send (Json 200 [(''name'', JStr (cat.name (cats st ! i))),
                                    (''beds'', JNum (bedsOwned (cats st ! i) + 1))])],
            st\<lparr>cats := (cats st)[i := (cats st ! i)\<lparr>bedsOwned := bedsOwned (cats st ! i) + 1\<rparr>]\<rparr>)"
proof -
  from i have len: "i < length (cats st)" by (rule latestIndex_less)
  have a: "addNum (bedsOwned (cats st ! i)) 1 = bedsOwned (cats st ! i) + 1"
    using lo hi by (rule addNum_one)
  have "(cats st ! i)\<lparr>bedsOwned := bedsOwned (cats st ! i) + 1\<rparr> \<noteq> cats st ! i"
    by (metis add_cancel_left_right cat.select_convs(2) cat.surjective cat.update_convs(2)
        zero_neq_one)
  with len have "(cats st)[i := (cats st ! i)\<lparr>bedsOwned := bedsOwned (cats st ! i) + 1\<rparr>] \<noteq> cats st"
    by (rule list_update_changes)
  with updateLast_step [OF i] a show ?thesis
    by (simp add: written_def store_cats_eq)
qed

text \<open>
  Claim C3 says that two calls of \<^verbatim>\<open>updateLast\<close> leave \<^verbatim>\<open>bedsOwned\<close> of the most recent
  cat exactly 2 greater, in every store with a cat. Numbers are doubles: a cat with
  \<open>2 ^ 53 = 9007199254740992\<close> beds, which \<^verbatim>\<open>setName\<close> stores when asked to, has as
  many after each call, and both responses carry that number.
\<close>

theorem updateLast_many_beds_counterexample:
  "updateLast Resolves manyBedsStore =
     ([Send (Json 200 [(''name'', JStr ''Tom Cat''), (''beds'', JNum 9007199254740992)])],
      manyBedsStore) \<and>
   updateLast Resolves (snd (updateLast Resolves manyBedsStore)) =
     ([Send (Json 200 [(''name'', JStr ''Tom Cat''), (''beds'', JNum 9007199254740992)])],
      manyBedsStore)"
proof -
  have i: "latestIndex (cats manyBedsStore) = Some 0"
    by (simp add: manyBedsStore_def)
  have "updateLast Resolves manyBedsStore =
     ([Send (Json 200 [(''name'', JStr ''Tom Cat''), (''beds'', JNum 9007199254740992)])],
      manyBedsStore)"
    unfolding updateLast_step [OF i]
    by (simp add: manyBedsStore_def addNum_top written_def)
  then show ?thesis by simp
qed

text \<open>
  Claim C3, amended: in every store with at least one cat whose most recently created cat
  has at least \<open>- (2 ^ 53)\<close> and less than \<open>2 ^ 53 - 1\<close> beds, two calls of
  \<^verbatim>\<open>updateLast\<close> in sequence, the update resolving each time, leave \<^verbatim>\<open>bedsOwned\<close> of that
  cat exactly 2 greater than it was, and each call answers 200 with the JSON body
  \<^verbatim>\<open>{name, beds}\<close>, where \<^verbatim>\<open>beds\<close> is the value after the increment of that call. The cat
  is the same in both calls, it is still the most recent one afterwards, and no other
  record changes.
\<close>

theorem updateLast_twice:
  assumes "cats st \<noteq> []"
    and "\<forall>i. latestIndex (cats st) = Some i \<longrightarrow>
           - (2 ^ 53) \<le> bedsOwned (cats st ! i) \<and> bedsOwned (cats st ! i) + 1 < 2 ^ 53"
  shows "\<exists>i<length (cats st).
           latestIndex (cats st) = Some i \<and>
           (\<forall>d\<in>set (cats st). createdDate d \<le> createdDate (cats st ! i)) \<and>
           updateLast Resolves st =
             ([Write, Send (Json 200 [(''name'', JStr (cat.name (cats st ! i))),
                                      (''beds'', JNum (bedsOwned (cats st ! i) + 1))])],
              st\<lparr>cats := (cats st)[i := (cats st ! i)\<lparr>bedsOwned := bedsOwned (cats st ! i) + 1\<rparr>]\<rparr>) \<and>
           updateLast Resolves (snd (updateLast Resolves st)) =
             ([Write, Send (Json 200 [(''name'', JStr (cat.name (cats st ! i))),
                                      (''beds'', JNum (bedsOwned (cats st ! i) + 2))])],
              st\<lparr>cats := (cats st)[i := (cats st ! i)\<lparr>bedsOwned := bedsOwned (cats st ! i) + 2\<rparr>]\<rparr>) \<and>
           latestIndex (cats (snd (updateLast Resolves (snd (updateLast Resolves st))))) = Some i"
proof -
  from assms(1) obtain i where i: "latestIndex (cats st) = Some i"
    by (cases "latestIndex (cats st)") (simp_all add: latestIndex_None)
  then have len: "i < length (cats st)" by (rule latestIndex_less)
  have maxi: "\<forall>d\<in>set (cats st). createdDate d \<le> createdDate (cats st ! i)"
    using i by (blast intro: latestIndex_max)
  define c where "c = cats st ! i"
  from assms(2) i have lo: "- (2 ^ 53) \<le> bedsOwned c" and hi: "bedsOwned c + 1 < 2 ^ 53"
    by (simp_all add: c_def)
  define st1 where "st1 = st\<lparr>cats := (cats st)[i := c\<lparr>bedsOwned := bedsOwned c + 1\<rparr>]\<rparr>"
  define st2 where "st2 = st\<lparr>cats := (cats st)[i := c\<lparr>bedsOwned := bedsOwned c + 2\<rparr>]\<rparr>"
  have first: "updateLast Resolves st =
      ([Write, Send (Json 200 [(''name'', JStr (cat.name c)), (''beds'', JNum (bedsOwned c + 1))])], st1)"
    using updateLast_exact [OF i] lo hi by (simp add: c_def st1_def)
  have i1: "latestIndex (cats st1) = Some i"
    using i by (simp add: st1_def c_def latestIndex_update)
  have c1: "cats st1 ! i = c\<lparr>bedsOwned := bedsOwned c + 1\<rparr>"
    using len by (simp add: st1_def)
  have "- (2 ^ 53) \<le> bedsOwned (cats st1 ! i)" "bedsOwned (cats st1 ! i) < 2 ^ 53"
    using lo hi by (simp_all add: c1)
  from updateLast_exact [OF i1 this] c1
  have second: "updateLast Resolves st1 =
      ([Write, Send (Json 200 [(''name'', JStr (cat.name c)), (''beds'', JNum (bedsOwned c + 2))])], st2)"
    by (simp add: st1_def st2_def add.commute)
  have i2: "latestIndex (cats st2) = Some i"
    using i by (simp add: st2_def c_def latestIndex_update)
  from len i maxi first second i2 show ?thesis
    unfolding c_def st1_def st2_def by (intro exI [of _ i]) simp
qed

theorem updateLast_twice_witness:
  "updateLast Resolves someStore =
     ([Write, Send (Json 200 [(''name'', JStr ''Kit Kat''), (''beds'', JNum 2)])],
      someStore\<lparr>cats := someCats[1 := \<lparr>cat.name = ''Kit Kat'', bedsOwned = 2, createdDate = 9\<rparr>]\<rparr>) \<and>
   updateLast Resolves (snd (updateLast Resolves someStore)) =
     ([Write, Send (Json 200 [(''name'', JStr ''Kit Kat''), (''beds'', JNum 3)])],
      someStore\<lparr>cats := someCats[1 := \<lparr>cat.name = ''Kit Kat'', bedsOwned = 3, createdDate = 9\<rparr>]\<rparr>)"
proof -
  have i: "latestIndex (cats someStore) = Some 1"
    by (simp add: someStore_def someCats_def)
  have c: "cats someStore ! 1 = \<lparr>cat.name = ''Kit Kat'', bedsOwned = 1, createdDate = 9\<rparr>"
    by (simp add: someStore_def someCats_def)
  have ne: "cats someStore \<noteq> []"
    by (simp add: someStore_def someCats_def)
  have r: "\<forall>i. latestIndex (cats someStore) = Some i \<longrightarrow>
           - (2 ^ 53) \<le> bedsOwned (cats someStore ! i) \<and> bedsOwned (cats someStore ! i) + 1 < 2 ^ 53"
    by (simp add: i someStore_def someCats_def)
  from updateLast_twice [OF ne r] i c show ?thesis
    by (auto simp add: someStore_def)
qed

text \<open>
  Claim C9: in every store with no cat, \<^verbatim>\<open>updateLast\<close> emits no response at all when the
  update resolves. The promise is fulfilled with \<^verbatim>\<open>null\<close>, the continuation given to
  \<^verbatim>\<open>then\<close> throws on \<^verbatim>\<open>doc.name\<close>, and the continuation given to \<^verbatim>\<open>catch\<close>, which
  waits on the original promise, does not run: neither the 200 nor the 500 is sent, and
  the \<^verbatim>\<open>TypeError\<close> stays unhandled.
\<close>

theorem updateLast_no_cat:
  assumes "cats st = []"
  shows "updateLast Resolves st = ([Unhandled TypeError], st) \<and>
         responses (fst (updateLast Resolves st)) = []"
  using assms
  by (simp add: updateLast_def Cat_findOneAndUpdate_def updateLast_then_def written_def)

theorem updateLast_no_cat_witness:
  "updateLast Resolves emptyStore = ([Unhandled TypeError], emptyStore) \<and>
   responses (fst (updateLast Resolves emptyStore)) = []"
  using updateLast_no_cat [of emptyStore] by (simp add: emptyStore_def)

section \<open>Searching a dog\<close>

lemma nameFilter_JStr: "nameFilter m (JStr n) = Some (\<lambda>k. k = n)"
  by (simp add: nameFilter_def)

lemma nameFilter_primitive:
  "primitive v \<Longrightarrow> \<not> falsy v \<Longrightarrow> nameFilter m v = Some (\<lambda>n. Inr n = toString v)"
  by (cases v) (auto simp add: nameFilter_def)

lemma searchDogName_found:
  assumes v: "\<not> falsy (field (body req) ''dogname'')"
    and p: "nameFilter m (field (body req) ''dogname'') = Some P"
    and f: "findFirst (\<lambda>d. P (dog.name d)) (dogs st) = Some (i, d)"
  shows "searchDogName m Resolves Resolves req st =
           (written st (st\<lparr>dogs := (dogs st)[i := d\<lparr>age := addNum (age d) 1\<rparr>]\<rparr>) @
            [Send (Json 200 [(''name'', JStr (dog.name d)), (''breed'', JStr (breed d)),
                             (''age'', JNum (addNum (age d) 1))])],
            st\<lparr>dogs := (dogs st)[i := d\<lparr>age := addNum (age d) 1\<rparr>]\<rparr>)"
proof -
  from findFirst_Some [OF f] have "i < length (dogs st)" by simp
  with v p f show ?thesis
    by (simp add: searchDogName_def searchDogName_try_def Dog_findOne_def Dog_update_def)
qed

text \<open>
  Claim C2 says that the search leaves the age of the matched dog exactly one greater, for
  every body whose \<^verbatim>\<open>dogname\<close> matches a stored dog. Numbers are doubles: for a dog
  aged \<open>2 ^ 53 = 9007199254740992\<close>, \<^verbatim>\<open>doc.age += 1\<close> leaves the age as it is, nothing is
  written, and the response carries the old age.
\<close>

theorem searchDogName_old_dog_counterexample:
  "searchDogName strict Resolves Resolves (post [(''dogname'', JStr ''Rex'')]) oldDogStore =
     ([Send (Json 200 [(''name'', JStr ''Rex''), (''breed'', JStr ''Lab''),
                       (''age'', JNum 9007199254740992)])],
      oldDogStore)"
proof -
  have v: "\<not> falsy (field (body (post [(''dogname'', JStr ''Rex'')])) ''dogname'')"
    by (simp add: post_def field_def)
  have p: "nameFilter strict (field (body (post [(''dogname'', JStr ''Rex'')])) ''dogname'') =
             Some (\<lambda>k. k = ''Rex'')"
    by (simp add: post_def field_def nameFilter_def)
  have f: "findFirst (\<lambda>d. dog.name d = ''Rex'') (dogs oldDogStore) =
             Some (0, \<lparr>dog.name = ''Rex'', breed = ''Lab'', age = 9007199254740992\<rparr>)"
    by (simp add: oldDogStore_def)
  show ?thesis
    unfolding searchDogName_found [OF v p f]
    by (simp add: addNum_top written_def oldDogStore_def)
qed

text \<open>
  Claim C2, amended: for every body whose \<^verbatim>\<open>dogname\<close> is the name of a stored dog, in a
  store that satisfies the invariant of the data model (so the name is not empty), when
  the first dog of that name has an age of at least \<open>- (2 ^ 53)\<close> and less than
  \<open>2 ^ 53\<close>, \<^verbatim>\<open>searchDogName\<close>, both round trips resolving, answers 200 with the JSON body
  \<^verbatim>\<open>{name, breed, age}\<close> of that dog; its \<^verbatim>\<open>age\<close> in the store is exactly one greater than
  before the call, the write precedes the response, and the \<^verbatim>\<open>age\<close> of the response is the
  incremented value. No other record changes.
\<close>

theorem searchDogName_increments:
  assumes "body req ''dogname'' = Some (JStr n)" and "named st"
    and "\<exists>d\<in>set (dogs st). dog.name d = n"
    and "\<forall>i d. findFirst (\<lambda>d. dog.name d = n) (dogs st) = Some (i, d) \<longrightarrow>
           - (2 ^ 53) \<le> age d \<and> age d < 2 ^ 53"
  shows "\<exists>i<length (dogs st). dog.name (dogs st ! i) = n \<and> (\<forall>j<i. dog.name (dogs st ! j) \<noteq> n) \<and>
           searchDogName m Resolves Resolves req st =
             ([Write, Send (Json 200 [(''name'', JStr n), (''breed'', JStr (breed (dogs st ! i))),
                                      (''age'', JNum (age (dogs st ! i) + 1))])],
              st\<lparr>dogs := (dogs st)[i := (dogs st ! i)\<lparr>age := age (dogs st ! i) + 1\<rparr>]\<rparr>)"
proof -
  from assms(3) obtain d0 where d0: "d0 \<in> set (dogs st)" "dog.name d0 = n" by blast
  with assms(2) have "n \<noteq> []" by (auto simp add: named_def list_all_iff)
  with assms(1) have v: "\<not> falsy (field (body req) ''dogname'')"
    and p: "nameFilter m (field (body req) ''dogname'') = Some (\<lambda>k. k = n)"
    by (simp_all add: field_def nameFilter_def)
  from findFirst_exists [of d0 "dogs st" "\<lambda>d. dog.name d = n"] d0
  obtain i d where f: "findFirst (\<lambda>d. dog.name d = n) (dogs st) = Some (i, d)" by blast
  from findFirst_Some [OF f]
  have i: "i < length (dogs st)" "dogs st ! i = d" "dog.name d = n"
    "\<forall>j<i. dog.name (dogs st ! j) \<noteq> n" by simp_all
  from assms(4) f have "- (2 ^ 53) \<le> age d" "age d < 2 ^ 53" by blast+
  then have a: "addNum (age d) 1 = age d + 1" by (rule addNum_one)
  have "d\<lparr>age := age d + 1\<rparr> \<noteq> dogs st ! i"
    unfolding i(2)
    by (metis add_cancel_left_right dog.select_convs(3) dog.surjective dog.update_convs(3)
        zero_neq_one)
  with i(1) have "(dogs st)[i := d\<lparr>age := age d + 1\<rparr>] \<noteq> dogs st"
    by (rule list_update_changes)
  with searchDogName_found [OF v p f] a i
  have "searchDogName m Resolves Resolves req st =
          ([Write, Send (Json 200 [(''name'', JStr n), (''breed'', JStr (breed (dogs st ! i))),
                                   (''age'', JNum (age (dogs st ! i) + 1))])],
           st\<lparr>dogs := (dogs st)[i := (dogs st ! i)\<lparr>age := age (dogs st ! i) + 1\<rparr>]\<rparr>)"
    by (simp add: written_def store_dogs_eq)
  with i show ?thesis by blast
qed

text \<open>Rex, a Lab aged 4, is found and is 5 afterwards.\<close>

theorem searchDogName_increments_witness:
  "searchDogName strict Resolves Resolves (post [(''dogname'', JStr ''Rex'')]) someStore =
     ([Write, Send (Json 200 [(''name'', JStr ''Rex''), (''breed'', JStr ''Lab''), (''age'', JNum 5)])],
      someStore\<lparr>dogs := [\<lparr>dog.name = ''Fido'', breed = ''Pug'', age = 2\<rparr>,
                          \<lparr>dog.name = ''Rex'', breed = ''Lab'', age = 5\<rparr>]\<rparr>)"
proof -
  have "body (post [(''dogname'', JStr ''Rex'')]) ''dogname'' = Some (JStr ''Rex'')"
    by (simp add: post_def)
  moreover have "named someStore"
    by (simp add: named_def someStore_def someCats_def someDogs_def)
  moreover have "\<exists>d\<in>set (dogs someStore). dog.name d = ''Rex''"
    by (simp add: someStore_def someDogs_def)
  moreover have "\<forall>i d. findFirst (\<lambda>d. dog.name d = ''Rex'') (dogs someStore) = Some (i, d) \<longrightarrow>
           - (2 ^ 53) \<le> age d \<and> age d < 2 ^ 53"
    by (auto simp add: someStore_def someDogs_def)
  ultimately obtain i where "i < length (dogs someStore)"
    and "dog.name (dogs someStore ! i) = ''Rex''"
    and r: "searchDogName strict Resolves Resolves (post [(''dogname'', JStr ''Rex'')]) someStore =
             ([Write, Send (Json 200 [(''name'', JStr ''Rex''),
                                      (''breed'', JStr (breed (dogs someStore ! i))),
                                      (''age'', JNum (age (dogs someStore ! i) + 1))])],
              someStore\<lparr>dogs := (dogs someStore)[i := (dogs someStore ! i)
                                    \<lparr>age := age (dogs someStore ! i) + 1\<rparr>]\<rparr>)"
    using searchDogName_increments [of "post [(''dogname'', JStr ''Rex'')]" "''Rex''" someStore strict]
    by blast
  then have "i = 1"
    by (cases i) (simp_all add: someStore_def someDogs_def)
  with r show ?thesis
    by (simp add: someStore_def someDogs_def)
qed

lemma searchDogName_try_doc: "searchDogName_try m dbFind dbSave req st \<noteq> Inr (None, st')"
  by (simp add: searchDogName_try_def Let_def split: sum.splits option.splits prod.splits)

lemma searchDogName_none:
  assumes "\<not> falsy (field (body req) ''dogname'')"
    and "nameFilter m (field (body req) ''dogname'') = Some P"
    and "\<forall>d\<in>set (dogs st). \<not> P (dog.name d)"
  shows "searchDogName m dbFind dbSave req st =
        ([Log (Err (case dbFind of Resolves \<Rightarrow> TypeError | Rejects \<Rightarrow> StoreError)),
          Send (Json 500 [(''error'', JStr ''Something went wrong'')])], st)"
proof -
  from assms(3) have "findFirst (\<lambda>d. P (dog.name d)) (dogs st) = None"
    by (simp add: findFirst_None)
  with assms(1,2) show ?thesis
    by (cases dbFind) (simp_all add: searchDogName_def searchDogName_try_def Dog_findOne_def)
qed

text \<open>
  Claim C8: for every request whose \<^verbatim>\<open>dogname\<close> is present and matches no stored dog,
  \<^verbatim>\<open>searchDogName\<close> answers 500 with a JSON \<^verbatim>\<open>{error}\<close> body, not 404: the query resolves
  with \<^verbatim>\<open>null\<close>, \<^verbatim>\<open>doc.age += 1\<close> throws inside the \<^verbatim>\<open>try\<close> block, and the \<^verbatim>\<open>catch\<close>
  meant for store errors logs the \<^verbatim>\<open>TypeError\<close> and answers (a query that rejects ends
  there too). Nothing is written. This holds for a \<^verbatim>\<open>dogname\<close> that is a string, a number
  or a boolean, compared as a string with the stored names, and for any other value
  whatever test the schema makes of it. The branch that would answer 404 is never
  reached, for any request, store and outcome.
\<close>

theorem searchDogName_no_match:
  "(\<not> falsy (field (body req) ''dogname'') \<and> primitive (field (body req) ''dogname'') \<and>
    (\<forall>d\<in>set (dogs st). Inr (dog.name d) \<noteq> toString (field (body req) ''dogname'')) \<longrightarrow>
      searchDogName m dbFind dbSave req st =
        ([Log (Err (case dbFind of Resolves \<Rightarrow> TypeError | Rejects \<Rightarrow> StoreError)),
          Send (Json 500 [(''error'', JStr ''Something went wrong'')])], st)) \<and>
   (\<not> falsy (field (body req) ''dogname'') \<and>
    nameFilter m (field (body req) ''dogname'') = Some P \<and>
    (\<forall>d\<in>set (dogs st). \<not> P (dog.name d)) \<longrightarrow>
      searchDogName m dbFind dbSave req st =
        ([Log (Err (case dbFind of Resolves \<Rightarrow> TypeError | Rejects \<Rightarrow> StoreError)),
          Send (Json 500 [(''error'', JStr ''Something went wrong'')])], st)) \<and>
   404 \<notin> status ` set (responses (fst (searchDogName m dbFind dbSave req st)))"
proof (intro conjI impI)
  assume a: "\<not> falsy (field (body req) ''dogname'') \<and> primitive (field (body req) ''dogname'') \<and>
    (\<forall>d\<in>set (dogs st). Inr (dog.name d) \<noteq> toString (field (body req) ''dogname''))"
  then have f: "nameFilter m (field (body req) ''dogname'') =
      Some (\<lambda>n. Inr n = toString (field (body req) ''dogname''))"
    by (simp add: nameFilter_primitive)
  from a have "\<not> falsy (field (body req) ''dogname'')"
    and "\<forall>d\<in>set (dogs st). \<not> Inr (dog.name d) = toString (field (body req) ''dogname'')"
    by blast+
  from searchDogName_none [OF this(1) f this(2)]
  show "searchDogName m dbFind dbSave req st =
        ([Log (Err (case dbFind of Resolves \<Rightarrow> TypeError | Rejects \<Rightarrow> StoreError)),
          Send (Json 500 [(''error'', JStr ''Something went wrong'')])], st)" .
next
  assume "\<not> falsy (field (body req) ''dogname'') \<and>
    nameFilter m (field (body req) ''dogname'') = Some P \<and>
    (\<forall>d\<in>set (dogs st). \<not> P (dog.name d))"
  then have "\<not> falsy (field (body req) ''dogname'')"
    and "nameFilter m (field (body req) ''dogname'') = Some P"
    and "\<forall>d\<in>set (dogs st). \<not> P (dog.name d)"
    by blast+
  then show "searchDogName m dbFind dbSave req st =
        ([Log (Err (case dbFind of Resolves \<Rightarrow> TypeError | Rejects \<Rightarrow> StoreError)),
          Send (Json 500 [(''error'', JStr ''Something went wrong'')])], st)"
    by (rule searchDogName_none)
next
  show "404 \<notin> status ` set (responses (fst (searchDogName m dbFind dbSave req st)))"
    using searchDogName_try_doc [of m dbFind dbSave req st]
    by (auto simp add: searchDogName_def written_def split: sum.splits option.splits)
qed

theorem searchDogName_no_match_witness:
  "searchDogName strict Resolves Resolves (post [(''dogname'', JStr ''Ghost'')]) someStore =
     ([Log (Err TypeError), Send (Json 500 [(''error'', JStr ''Something went wrong'')])],
      someStore)"
  using searchDogName_no_match [of "post [(''dogname'', JStr ''Ghost'')]" someStore strict
      Resolves Resolves "\<lambda>k. k = ''Ghost''"]
  by (simp add: post_def someStore_def someDogs_def field_def nameFilter_def)

section \<open>Names are never empty\<close>

















text \<open>Without a required name the guard of \<^verbatim>\<open>setDogName\<close> is not enough: the empty
  array is truthy and prints as the empty string, and a dog with no name is stored.\<close>

lemma setDogName_array_name:
  "setDogName lax Resolves
     (post [(''name'', JArr []), (''breed'', JStr ''Lab''), (''age'', JNum 1)]) emptyStore =
     ([Write, Send (Json 201 [(''name'', JStr []), (''breed'', JStr ''Lab''), (''age'', JNum 1)])],
      \<lparr>cats = [], dogs = [\<lparr>dog.name = [], breed = ''Lab'', age = 1\<rparr>]\<rparr>)"
  by (simp add: setDogName_def post_def field_def Dog_new_def castNumber_def Dog_save_def
      written_def lax_def emptyStore_def)



end
